theory Spec2Isabelle
  imports Complex_Main "HOL-Library.Sublist"
begin

section \<open>JavaScript values used by the fit scoring code\<close>

text \<open>
  The fit scoring code of the Recommendations page works on JavaScript numbers, which
  are IEEE 754 double precision values. A \<open>number\<close> is a finite double, one of the
  two infinities, or \<open>NaN\<close>. \<open>Fin x\<close> carries the exact real value \<open>x\<close> of a finite
  double; the two zeros are not told apart (they compare equal and print alike in this
  code).
\<close>

datatype number = NaN | NegInf | Fin real | PosInf

text \<open>
  Rounding a real to a double. The doubles near \<open>a\<close> with \<open>2^e \<le> a < 2^(e+1)\<close> are the
  multiples of the quantum \<open>2^(e-52)\<close>; below \<open>2^(-1022)\<close> the quantum stays
  \<open>2^(-1074)\<close> (subnormal numbers). The search starts at \<open>e = 0\<close> with the quantum
  \<open>2^(-52) = 1 / 4503599627370496\<close> and doubles or halves it; \<open>9007199254740992\<close>
  is \<open>2^53\<close>.
\<close>

function quantum_up :: "real \<Rightarrow> int \<Rightarrow> real \<Rightarrow> real" where
  "quantum_up a e q =
     (if e < 1024 \<and> q * 9007199254740992 \<le> a then quantum_up a (e + 1) (2 * q) else q)"
  by pat_completeness auto
termination
  by (relation "measure (\<lambda>(a, e, q). nat (1024 - e))") auto

function quantum_down :: "real \<Rightarrow> int \<Rightarrow> real \<Rightarrow> real" where
  "quantum_down a e q =
     (if - 1022 < e \<and> a < q * 4503599627370496 then quantum_down a (e - 1) (q / 2) else q)"
  by pat_completeness auto
termination
  by (relation "measure (\<lambda>(a, e, q). nat (e + 1022))") auto

definition quantum :: "real \<Rightarrow> real" where
  "quantum a =
     (if 1 \<le> a then quantum_up a 0 (1 / 4503599627370496)
      else quantum_down a 0 (1 / 4503599627370496))"

text \<open>Rounding to the nearest integer, a tie going to the even one.\<close>

definition round_half_even :: "real \<Rightarrow> int" where
  "round_half_even y =
     (let f = \<lfloor>y\<rfloor>; r = y - of_int f in
      if r < 1 / 2 then f else if 1 / 2 < r then f + 1 else if even f then f else f + 1)"

text \<open>\<open>2^1024\<close>, the least magnitude that is no longer a finite double.\<close>

definition double_overflow :: real where
  "double_overflow = 179769313486231590772930519078902473361797697894230657273430081157732675805500963132708477322407536021120113879871393357658789768814416622492847430639474124377767893424865485276302219601246094119453082952085005768838150682342462881473913110540827237163350510684586298239947245938479716304835356329624224137216"

text \<open>
  \<open>fl x\<close> is the double nearest to \<open>x\<close> (round to nearest, ties to even), an
  infinity when the rounded magnitude reaches \<open>2^1024\<close>. Every arithmetic operation
  of the code, and the reading of a decimal literal or string, yields \<open>fl\<close> of the
  exact result.
\<close>

definition fl :: "real \<Rightarrow> number" where
  "fl x =
     (if x = 0 then Fin 0
      else
        let q = quantum \<bar>x\<bar>;
            r = of_int (round_half_even (x / q)) * q in
        if double_overflow \<le> \<bar>r\<bar> then (if 0 < x then PosInf else NegInf) else Fin r)"

text \<open>The binary \<open>-\<close> of JavaScript on numbers.\<close>

fun num_sub :: "number \<Rightarrow> number \<Rightarrow> number" where
  "num_sub NaN _ = NaN"
| "num_sub _ NaN = NaN"
| "num_sub (Fin a) (Fin b) = fl (a - b)"
| "num_sub (Fin a) PosInf = NegInf"
| "num_sub (Fin a) NegInf = PosInf"
| "num_sub PosInf PosInf = NaN"
| "num_sub PosInf _ = PosInf"
| "num_sub NegInf NegInf = NaN"
| "num_sub NegInf _ = NegInf"

text \<open>The binary \<open>*\<close> of JavaScript on numbers.\<close>

fun num_sign :: "number \<Rightarrow> int" where
  "num_sign NaN = 0"
| "num_sign NegInf = - 1"
| "num_sign PosInf = 1"
| "num_sign (Fin a) = (if a < 0 then - 1 else if a = 0 then 0 else 1)"

fun num_mul :: "number \<Rightarrow> number \<Rightarrow> number" where
  "num_mul NaN _ = NaN"
| "num_mul _ NaN = NaN"
| "num_mul (Fin a) (Fin b) = fl (a * b)"
| "num_mul x y =
     (if num_sign x * num_sign y = 0 then NaN
      else if num_sign x * num_sign y > 0 then PosInf else NegInf)"

text \<open>
  The relational operators: every comparison with \<open>NaN\<close> is false, so \<open>a >= b\<close>
  is not the negation of \<open>a < b\<close>.
\<close>

fun num_lt :: "number \<Rightarrow> number \<Rightarrow> bool" where
  "num_lt NaN _ = False"
| "num_lt _ NaN = False"
| "num_lt (Fin a) (Fin b) = (a < b)"
| "num_lt NegInf NegInf = False"
| "num_lt NegInf _ = True"
| "num_lt _ NegInf = False"
| "num_lt PosInf _ = False"
| "num_lt _ PosInf = True"

fun num_le :: "number \<Rightarrow> number \<Rightarrow> bool" where
  "num_le NaN _ = False"
| "num_le _ NaN = False"
| "num_le (Fin a) (Fin b) = (a \<le> b)"
| "num_le NegInf _ = True"
| "num_le _ PosInf = True"
| "num_le PosInf _ = False"
| "num_le _ NegInf = False"

definition num_gt :: "number \<Rightarrow> number \<Rightarrow> bool" where
  "num_gt a b = num_lt b a"

definition num_ge :: "number \<Rightarrow> number \<Rightarrow> bool" where
  "num_ge a b = num_le b a"

text \<open>
  \<open>Number.prototype.toFixed(1)\<close> on a finite double with exact value \<open>x\<close>, for
  \<open>|x| < 10^21\<close>: the sign is split off, and of the integers \<open>n\<close> with \<open>n / 10\<close>
  closest to \<open>|x|\<close> the larger one is taken, which is \<open>\<lfloor>|x| * 10 + 1/2\<rfloor>\<close>; the
  result is the decimal \<open>n / 10\<close> with the sign put back.
\<close>

definition toFixed1 :: "real \<Rightarrow> real" where
  "toFixed1 x =
     (if x < 0 then - (of_int \<lfloor>(- x) * 10 + 1 / 2\<rfloor> / 10)
      else of_int \<lfloor>x * 10 + 1 / 2\<rfloor> / 10)"

text \<open>
  \<open>parseFloat(x.toFixed(1))\<close>: \<open>parseFloat\<close> reads the decimal string as the
  nearest double. For \<open>|x| \<ge> 10^21\<close> \<open>toFixed\<close> prints the number as
  \<open>toString\<close> does, which reads back as the same double; \<open>"NaN"\<close> and
  \<open>"Infinity"\<close> read back as themselves.
\<close>

fun parseFloat_toFixed1 :: "number \<Rightarrow> number" where
  "parseFloat_toFixed1 (Fin x) =
     (if 1000000000000000000000 \<le> \<bar>x\<bar> then Fin x else fl (toFixed1 x))"
| "parseFloat_toFixed1 x = x"

text \<open>\<open>Math.floor\<close> and \<open>Math.ceil\<close>.\<close>

fun Math_floor :: "number \<Rightarrow> number" where
  "Math_floor (Fin x) = Fin (of_int \<lfloor>x\<rfloor>)"
| "Math_floor x = x"

fun Math_ceil :: "number \<Rightarrow> number" where
  "Math_ceil (Fin x) = Fin (of_int \<lceil>x\<rceil>)"
| "Math_ceil x = x"

text \<open>
  The values a size chart entry or a profile field can hold. Only \<open>typeof v\<close> being
  \<open>"number"\<close> matters to the code; \<open>JObject\<close> stands for any object, array or
  function.
\<close>

datatype jsvalue = JNum number | JStr string | JBool bool | JNull | JUndefined | JObject

fun typeof_is_number :: "jsvalue \<Rightarrow> bool" where
  "typeof_is_number (JNum _) = True"
| "typeof_is_number _ = False"

section \<open>Fabric ease configuration\<close>

record FabricEaseConfig =
  perfectMin :: number
  perfectMax :: number
  tightThreshold :: number
  looseThreshold :: number

definition rigid :: FabricEaseConfig where
  "rigid = \<lparr>perfectMin = Fin 2, perfectMax = Fin 4,
            tightThreshold = Fin 0, looseThreshold = Fin 6\<rparr>"

definition normal :: FabricEaseConfig where
  "normal = \<lparr>perfectMin = Fin (- 3 / 2), perfectMax = Fin 2,
             tightThreshold = Fin (- 3), looseThreshold = Fin 4\<rparr>"

definition stretchy :: FabricEaseConfig where
  "stretchy = \<lparr>perfectMin = Fin (- 4), perfectMax = Fin 1,
               tightThreshold = Fin (- 6), looseThreshold = Fin 3\<rparr>"

text \<open>The own properties of the object literal \<open>FABRIC_EASE_CONFIGS\<close>, in source order.\<close>

definition FABRIC_EASE_CONFIGS :: "(string \<times> FabricEaseConfig) list" where
  "FABRIC_EASE_CONFIGS = [(''rigid'', rigid), (''normal'', normal), (''stretchy'', stretchy)]"

text \<open>
  \<open>FABRIC_EASE_CONFIGS\<close> is an ordinary object literal, so the property read
  \<open>FABRIC_EASE_CONFIGS[fabricType]\<close> also finds what the object inherits from
  \<open>Object.prototype\<close>. These are the property names ECMAScript defines there
  (Annex B included, as in every browser); each of them holds a function, or for
  \<open>__proto__\<close> the prototype object itself.
\<close>

definition objectPrototypeKeys :: "string list" where
  "objectPrototypeKeys =
     [''constructor'', ''hasOwnProperty'', ''isPrototypeOf'', ''propertyIsEnumerable'',
      ''toLocaleString'', ''toString'', ''valueOf'', ''__proto__'',
      ''__defineGetter__'', ''__defineSetter__'', ''__lookupGetter__'', ''__lookupSetter__'']"

text \<open>
  What the property read yields: a configured band, an inherited member of
  \<open>Object.prototype\<close>, or \<open>undefined\<close>.
\<close>

datatype config_value = OwnConfig FabricEaseConfig | Inherited | Undefined

definition getConfig :: "string \<Rightarrow> config_value" where
  "getConfig fabricType =
     (case map_of FABRIC_EASE_CONFIGS fabricType of
        Some cfg \<Rightarrow> OwnConfig cfg
      | None \<Rightarrow> if fabricType \<in> set objectPrototypeKeys then Inherited else Undefined)"

text \<open>
  \<open>FABRIC_EASE_CONFIGS[fabricType] || FABRIC_EASE_CONFIGS.normal\<close>: only
  \<open>undefined\<close> is falsy here, objects and functions are truthy.
\<close>

definition resolveConfig :: "string \<Rightarrow> config_value" where
  "resolveConfig fabricType =
     (case getConfig fabricType of Undefined \<Rightarrow> OwnConfig normal | v \<Rightarrow> v)"

text \<open>
  \<open>config.perfectMin\<close> and \<open>config.perfectMax\<close> as the comparisons see them: an
  inherited function or object has no such property, the read gives \<open>undefined\<close>,
  and the relational operators convert \<open>undefined\<close> to \<open>NaN\<close>.
\<close>

fun config_perfectMin :: "config_value \<Rightarrow> number" where
  "config_perfectMin (OwnConfig cfg) = perfectMin cfg"
| "config_perfectMin _ = NaN"

fun config_perfectMax :: "config_value \<Rightarrow> number" where
  "config_perfectMax (OwnConfig cfg) = perfectMax cfg"
| "config_perfectMax _ = NaN"

section \<open>Measurement classifier\<close>

record FitStatus =
  status :: string
  difference :: number

text \<open>The body of \<open>calculateFitStatus\<close> after the band has been resolved.\<close>

definition fitStatusWith :: "config_value \<Rightarrow> number \<Rightarrow> number \<Rightarrow> FitStatus" where
  "fitStatusWith config userValue chartValue =
     (let d = parseFloat_toFixed1 (num_sub chartValue userValue) in
      if num_ge d (config_perfectMin config) \<and> num_le d (config_perfectMax config)
        then \<lparr>status = ''perfect'', difference = d\<rparr>
      else if num_lt d (config_perfectMin config)
        then \<lparr>status = ''tight'', difference = d\<rparr>
      else if num_gt d (config_perfectMax config)
        then \<lparr>status = ''loose'', difference = d\<rparr>
      else \<lparr>status = ''good'', difference = d\<rparr>)"

definition calculateFitStatus :: "number \<Rightarrow> number \<Rightarrow> string \<Rightarrow> FitStatus" where
  "calculateFitStatus userValue chartValue fabricType =
     fitStatusWith (resolveConfig fabricType) userValue chartValue"

section \<open>Strings\<close>

text \<open>
  The strings of this development are ASCII strings: the status words are, and so are
  the field names of a profile. On ASCII text \<open>toUpperCase\<close> and \<open>toLowerCase\<close>
  act on the letters \<open>a\<close>..\<open>z\<close> and \<open>A\<close>..\<open>Z\<close> and leave every other character as
  it is. Characters outside ASCII are not modelled (the definitions leave them as they
  are, the code maps some of them), and what is stated about keys is stated for ASCII
  keys.
\<close>

definition toUpperCase_char :: "char \<Rightarrow> char" where
  "toUpperCase_char c =
     (let n = (of_char c :: nat) in if 97 \<le> n \<and> n \<le> 122 then char_of (n - 32) else c)"

definition toLowerCase_char :: "char \<Rightarrow> char" where
  "toLowerCase_char c =
     (let n = (of_char c :: nat) in if 65 \<le> n \<and> n \<le> 90 then char_of (n + 32) else c)"

definition toUpperCase :: "string \<Rightarrow> string" where
  "toUpperCase s = map toUpperCase_char s"

definition toLowerCase :: "string \<Rightarrow> string" where
  "toLowerCase s = map toLowerCase_char s"

text \<open>\<open>s.includes(t)\<close>: \<open>t\<close> occurs in \<open>s\<close> as a contiguous piece.\<close>

definition str_includes :: "string \<Rightarrow> string \<Rightarrow> bool" where
  "str_includes s t = sublist t s"

text \<open>\<open>status.charAt(0).toUpperCase() + status.slice(1)\<close>.\<close>

definition capitalize :: "string \<Rightarrow> string" where
  "capitalize s = toUpperCase (take 1 s) @ drop 1 s"

text \<open>
  The regular expression \<open>/_./g\<close>: the dot matches any character but a line
  terminator, matches are found from left to right and do not overlap.
\<close>

definition isLineTerminator :: "char \<Rightarrow> bool" where
  "isLineTerminator c \<longleftrightarrow> c = CHR 0x0A \<or> c = CHR 0x0D"

text \<open>\<open>key.replace(/_./g, (match) => match.charAt(1).toUpperCase())\<close>.\<close>

fun replaceSeparators :: "string \<Rightarrow> string" where
  "replaceSeparators [] = []"
| "replaceSeparators [c] = [c]"
| "replaceSeparators (c # d # s) =
     (if c = CHR ''_'' \<and> \<not> isLineTerminator d
      then toUpperCase [d] @ replaceSeparators s
      else c # replaceSeparators (d # s))"

text \<open>The \<open>userKey\<close> under which a size chart key is looked up in the profile.\<close>

definition userKeyOf :: "string \<Rightarrow> string" where
  "userKeyOf key = (if str_includes key ''_'' then replaceSeparators key else key)"

section \<open>Per-measurement comparison lists\<close>

text \<open>
  An entry of \<open>measurementComparisons\<close>. The \<open>label\<close> field is translated display
  text and is left out.
\<close>

record MeasurementComparison = FitStatus +
  key :: string
  userValue :: number
  chartValue :: number

text \<open>
  One round of the \<open>forEach\<close> over \<open>Object.entries(recommendedSizeMeasurements)\<close>;
  \<open>None\<close> is the early \<open>return\<close> that pushes nothing. The profile is read as an
  object: a field that is absent reads as \<open>JUndefined\<close>.
\<close>

definition comparisonOf ::
  "(string \<Rightarrow> jsvalue) \<Rightarrow> string \<Rightarrow> string \<times> jsvalue \<Rightarrow> MeasurementComparison option" where
  "comparisonOf profile fabricType entry =
     (case entry of (k, cv) \<Rightarrow>
        if k = ''size'' \<or> \<not> typeof_is_number cv then None
        else (case (profile (userKeyOf k), cv) of
                (JNum u, JNum c) \<Rightarrow>
                  (let r = calculateFitStatus u c fabricType in
                   Some \<lparr>status = capitalize (status r), difference = difference r,
                         key = k, userValue = u, chartValue = c\<rparr>)
              | _ \<Rightarrow> None))"

text \<open>
  The list built for the recommended size. Nothing is compared while the profile has
  not been loaded or the size has no measurements.
\<close>

definition measurementComparisons ::
  "(string \<Rightarrow> jsvalue) option \<Rightarrow> string \<Rightarrow> (string \<times> jsvalue) list \<Rightarrow> MeasurementComparison list" where
  "measurementComparisons profile fabricType recommendedSizeMeasurements =
     (case profile of
        None \<Rightarrow> []
      | Some p \<Rightarrow>
          if length recommendedSizeMeasurements > 0
          then List.map_filter (comparisonOf p fabricType) recommendedSizeMeasurements
          else [])"

section \<open>Fit aggregator\<close>

definition deriveActualConfidence :: "MeasurementComparison list \<Rightarrow> string \<Rightarrow> string" where
  "deriveActualConfidence comparisons confidence =
     (if length comparisons = 0 then confidence
      else
        let hasTight = list_ex (\<lambda>m. str_includes (toLowerCase (status m)) ''tight'') comparisons;
            hasLoose = list_ex (\<lambda>m. str_includes (toLowerCase (status m)) ''loose'') comparisons;
            allPerfect = list_all (\<lambda>m. str_includes (toLowerCase (status m)) ''perfect'') comparisons
        in if hasTight then ''Tight''
           else if hasLoose then ''Loose''
           else if allPerfect then ''Perfect''
           else ''Good'')"

text \<open>The value \<open>actualConfidence\<close> shown on the page.\<close>

definition actualConfidence ::
  "(string \<Rightarrow> jsvalue) option \<Rightarrow> string \<Rightarrow> string \<Rightarrow> (string \<times> jsvalue) list \<Rightarrow> string" where
  "actualConfidence profile fabricType confidence recommendedSizeMeasurements =
     deriveActualConfidence
       (measurementComparisons profile fabricType recommendedSizeMeasurements) confidence"

section \<open>Size comparison view\<close>

text \<open>An entry of \<open>fitDetails\<close>, again without its \<open>label\<close>.\<close>

record FitDetail =
  detailKey :: string
  detailUserValue :: number
  detailChartValue :: number
  detailStatus :: string

definition fitDetailOf ::
  "(string \<Rightarrow> jsvalue) \<Rightarrow> string \<Rightarrow> string \<times> jsvalue \<Rightarrow> FitDetail option" where
  "fitDetailOf profile fabricType entry =
     (case entry of (k, cv) \<Rightarrow>
        if k = ''size'' \<or> \<not> typeof_is_number cv then None
        else (case (profile (userKeyOf k), cv) of
                (JNum u, JNum c) \<Rightarrow>
                  Some \<lparr>detailKey = k, detailUserValue = u, detailChartValue = c,
                        detailStatus = status (calculateFitStatus u c fabricType)\<rparr>
              | _ \<Rightarrow> None))"

text \<open>The view is rendered only once the profile is there.\<close>

definition fitDetails ::
  "(string \<Rightarrow> jsvalue) \<Rightarrow> string \<Rightarrow> (string \<times> jsvalue) list \<Rightarrow> FitDetail list" where
  "fitDetails profile fabricType sizeMeasurements =
     List.map_filter (fitDetailOf profile fabricType) sizeMeasurements"

definition overallFit :: "FitDetail list \<Rightarrow> string" where
  "overallFit details =
     (if length details > 0
      then if list_all (\<lambda>f. detailStatus f = ''perfect'') details then ''perfect''
           else if list_ex (\<lambda>f. detailStatus f = ''tight'') details then ''tight''
           else if list_ex (\<lambda>f. detailStatus f = ''loose'') details then ''loose''
           else ''good''
      else ''unknown'')"

text \<open>
  The two numbers of the range text of a detail line:
  \<open>Math.floor(detail.chartValue * 0.95)\<close> and \<open>Math.ceil(detail.chartValue * 1.05)\<close>.
  The literals \<open>0.95\<close> and \<open>1.05\<close> denote the doubles nearest to them.
\<close>

definition rangeMin :: "number \<Rightarrow> number" where
  "rangeMin c = Math_floor (num_mul c (fl (95 / 100)))"

definition rangeMax :: "number \<Rightarrow> number" where
  "rangeMax c = Math_ceil (num_mul c (fl (105 / 100)))"

definition detailRange :: "FitDetail \<Rightarrow> number \<times> number" where
  "detailRange detail = (rangeMin (detailChartValue detail), rangeMax (detailChartValue detail))"

section \<open>Notions used to state the properties\<close>

text \<open>The ordering a band is expected to satisfy.\<close>

definition band_ordered :: "FabricEaseConfig \<Rightarrow> bool" where
  "band_ordered cfg \<longleftrightarrow>
     num_le (tightThreshold cfg) (perfectMin cfg) \<and>
     num_le (perfectMin cfg) (perfectMax cfg) \<and>
     num_le (perfectMax cfg) (looseThreshold cfg)"

text \<open>
  The band the specification assigns to a fabric type: \<open>rigid\<close>, \<open>normal\<close> and
  \<open>stretchy\<close> are recognised, every other string is treated as \<open>normal\<close>.
\<close>

definition bandOf :: "string \<Rightarrow> FabricEaseConfig" where
  "bandOf fabricType =
     (if fabricType = ''rigid'' then rigid
      else if fabricType = ''stretchy'' then stretchy
      else normal)"

text \<open>
  \<open>d\<close> is \<open>x\<close> rounded to one decimal place: a multiple of one tenth that is nearest to
  \<open>x\<close>, the one further from zero when two are equally near.
\<close>

definition nearest_tenth :: "real \<Rightarrow> real \<Rightarrow> bool" where
  "nearest_tenth x d \<longleftrightarrow>
     of_int \<lfloor>d * 10\<rfloor> = d * 10 \<and>
     (\<bar>d - x\<bar> < 1 / 20 \<or> (\<bar>d - x\<bar> = 1 / 20 \<and> \<bar>x\<bar> < \<bar>d\<bar>))"

text \<open>The status words of the classifier, and as the comparison list shows them.\<close>

definition fitStatuses :: "string set" where
  "fitStatuses = {''perfect'', ''good'', ''tight'', ''loose''}"

definition displayStatuses :: "string set" where
  "displayStatuses = {''Perfect'', ''Good'', ''Tight'', ''Loose''}"

text \<open>
  Key normalisation in the words of the specification: every separator is removed,
  and the character that follows a separator is capitalised.
\<close>

fun camelCase :: "string \<Rightarrow> string" where
  "camelCase [] = []"
| "camelCase [c] = (if c = CHR ''_'' then [] else [c])"
| "camelCase (c # d # s) =
     (if c \<noteq> CHR ''_'' then c # camelCase (d # s)
      else if d = CHR ''_'' then camelCase (d # s)
      else toUpperCase_char d # camelCase s)"

text \<open>
  Every underscore of the key has a character after it that is neither another
  underscore nor a line terminator.
\<close>

fun separators_followed :: "string \<Rightarrow> bool" where
  "separators_followed [] = True"
| "separators_followed [c] = (c \<noteq> CHR ''_'')"
| "separators_followed (c # d # s) =
     ((c \<noteq> CHR ''_'' \<or> (d \<noteq> CHR ''_'' \<and> \<not> isLineTerminator d)) \<and>
      separators_followed (d # s))"

text \<open>The key is an ASCII string.\<close>

definition ascii_key :: "string \<Rightarrow> bool" where
  "ascii_key k = list_all (\<lambda>c. (of_char c :: nat) < 128) k"

text \<open>The entries of a size chart row that take part in the comparison.\<close>

definition comparable :: "string \<times> jsvalue \<Rightarrow> bool" where
  "comparable entry = (case entry of (k, v) \<Rightarrow> k \<noteq> ''size'' \<and> typeof_is_number v)"

section \<open>Rounding and comparison of numbers\<close>

lemma toFixed1_nearest: "nearest_tenth x (toFixed1 x)"
proof (cases "x < 0")
  case False
  define n where "n = \<lfloor>x * 10 + 1 / 2\<rfloor>"
  have d: "toFixed1 x = of_int n / 10"
    using False by (simp add: toFixed1_def n_def)
  have lo: "of_int n \<le> x * 10 + 1 / 2"
    unfolding n_def by (rule of_int_floor_le)
  have hi: "x * 10 + 1 / 2 < of_int n + 1"
    unfolding n_def by linarith
  show ?thesis
    unfolding nearest_tenth_def d using lo hi False by (auto simp: abs_if)
next
  case True
  define n where "n = \<lfloor>(- x) * 10 + 1 / 2\<rfloor>"
  have d: "toFixed1 x = - (of_int n / 10)"
    using True by (simp add: toFixed1_def n_def)
  have lo: "of_int n \<le> (- x) * 10 + 1 / 2"
    unfolding n_def by (rule of_int_floor_le)
  have hi: "(- x) * 10 + 1 / 2 < of_int n + 1"
    unfolding n_def by linarith
  have i: "of_int \<lfloor>- real_of_int n\<rfloor> = - real_of_int n"
    by simp
  show ?thesis
    unfolding nearest_tenth_def d using lo hi True i by (auto simp: abs_if)
qed

lemma double_overflow_power: "double_overflow = 2 ^ 1024"
  unfolding double_overflow_def by simp

lemma fl_not_NaN: "fl x \<noteq> NaN"
  by (simp add: fl_def Let_def)

lemma num_sub_Fin_not_NaN: "num_sub (Fin a) (Fin b) \<noteq> NaN"
  by (simp add: fl_not_NaN)

lemma parseFloat_toFixed1_rounds:
  "parseFloat_toFixed1 (Fin x) = Fin x \<and> 1000000000000000000000 \<le> \<bar>x\<bar> \<or>
   (\<exists>t. nearest_tenth x t \<and> parseFloat_toFixed1 (Fin x) = fl t)"
  using toFixed1_nearest [of x] by auto

lemma parseFloat_toFixed1_NaN: "parseFloat_toFixed1 x = NaN \<longleftrightarrow> x = NaN"
  by (cases x) (simp_all add: fl_not_NaN)

lemma num_compare_NaN [simp]:
  "num_lt x NaN = False"
  "num_le x NaN = False"
  by (cases x; simp)+

lemma num_trichotomy:
  "d \<noteq> NaN \<Longrightarrow> \<not> num_le (Fin lo) d \<Longrightarrow> num_lt d (Fin lo)"
  "d \<noteq> NaN \<Longrightarrow> \<not> num_le d (Fin hi) \<Longrightarrow> num_lt (Fin hi) d"
  by (cases d; simp)+

section \<open>Properties of the classifier\<close>

lemma resolveConfig_bandOf:
  "f \<notin> set objectPrototypeKeys \<Longrightarrow> resolveConfig f = OwnConfig (bandOf f)"
  by (simp add: resolveConfig_def getConfig_def FABRIC_EASE_CONFIGS_def bandOf_def)

lemma resolveConfig_inherited:
  "f \<in> set objectPrototypeKeys \<Longrightarrow> resolveConfig f = Inherited"
  by (auto simp add: resolveConfig_def getConfig_def FABRIC_EASE_CONFIGS_def
      objectPrototypeKeys_def)

lemma bandOf_finite:
  "\<exists>lo hi. perfectMin (bandOf f) = Fin lo \<and> perfectMax (bandOf f) = Fin hi"
  by (simp add: bandOf_def rigid_def normal_def stretchy_def)

lemma fitStatusWith_thresholds:
  "fitStatusWith (OwnConfig (cfg\<lparr>tightThreshold := t, looseThreshold := l\<rparr>)) u c
     = fitStatusWith (OwnConfig cfg) u c"
  by (simp add: fitStatusWith_def Let_def cong: if_cong)

lemma fitStatusWith_difference:
  "difference (fitStatusWith cfg u c) = parseFloat_toFixed1 (num_sub c u)"
  by (simp add: fitStatusWith_def Let_def)

lemma fitStatusWith_status:
  assumes "num_sub c u \<noteq> NaN" "perfectMin cfg = Fin lo" "perfectMax cfg = Fin hi"
  shows "status (fitStatusWith (OwnConfig cfg) u c) =
     (let d = parseFloat_toFixed1 (num_sub c u) in
      if num_le (perfectMin cfg) d \<and> num_le d (perfectMax cfg) then ''perfect''
      else if num_lt d (perfectMin cfg) then ''tight'' else ''loose'')"
proof -
  have "parseFloat_toFixed1 (num_sub c u) \<noteq> NaN"
    using assms(1) by (simp add: parseFloat_toFixed1_NaN)
  then show ?thesis
    using assms(2,3) num_trichotomy
    by (auto simp add: fitStatusWith_def Let_def num_ge_def num_gt_def)
qed

lemma fitStatusWith_loose:
  assumes "status (fitStatusWith cfg u c) = ''loose''"
  shows "num_lt (config_perfectMax cfg) (difference (fitStatusWith cfg u c))"
  using assms by (auto simp add: fitStatusWith_def Let_def num_gt_def split: if_splits)

lemma fitStatusWith_NaN:
  "num_sub c u = NaN \<Longrightarrow> fitStatusWith cfg u c = \<lparr>status = ''good'', difference = NaN\<rparr>"
  by (simp add: fitStatusWith_def num_ge_def num_gt_def)

lemma fitStatusWith_Inherited:
  "fitStatusWith Inherited u c =
     \<lparr>status = ''good'', difference = parseFloat_toFixed1 (num_sub c u)\<rparr>"
  by (cases "parseFloat_toFixed1 (num_sub c u)")
    (simp_all add: fitStatusWith_def num_ge_def num_gt_def)

lemma calculateFitStatus_fitStatuses: "status (calculateFitStatus u c f) \<in> fitStatuses"
  by (simp add: calculateFitStatus_def fitStatusWith_def Let_def fitStatuses_def)

lemma calculateFitStatus_unknown_fabric:
  assumes "f \<notin> set objectPrototypeKeys" and "f \<noteq> ''rigid''" and "f \<noteq> ''stretchy''"
  shows "calculateFitStatus u c f = calculateFitStatus u c ''normal''"
proof -
  have "''normal'' \<notin> set objectPrototypeKeys"
    by (simp add: objectPrototypeKeys_def)
  then have "resolveConfig f = resolveConfig ''normal''"
    using assms by (simp add: resolveConfig_bandOf bandOf_def)
  then show ?thesis
    by (simp add: calculateFitStatus_def)
qed

text \<open>
  The classifier on three inputs that are not integers, each written as the exact
  value of the double: \<open>0.7\<close> against \<open>2.75\<close>, where the double difference is
  \<open>2.0499999999999998\<close> and shows as \<open>2\<close>; \<open>30\<close> against \<open>10.15\<close>, where it is
  \<open>-19.85\<close> (a little below, as a double) and shows as \<open>-19.9\<close>; and \<open>20.05\<close>
  against \<open>52.3\<close>, where it is \<open>32.25\<close> and shows as \<open>32.3\<close>.
\<close>

lemma calculateFitStatus_doubles:
  "status (calculateFitStatus (Fin (3152519739159347 / 4503599627370496)) (Fin (11 / 4))
     ''normal'') = ''perfect''"
  "difference (calculateFitStatus (Fin (3152519739159347 / 4503599627370496)) (Fin (11 / 4))
     ''normal'') = Fin 2"
  "difference (calculateFitStatus (Fin 30) (Fin (5713942027226317 / 562949953421312))
     ''normal'') = Fin (- 2800676018271027 / 140737488355328)"
  "difference (calculateFitStatus (Fin (5643573283048653 / 281474976710656))
     (Fin (3680285320491827 / 70368744177664)) ''normal'')
     = Fin (2272910436938547 / 70368744177664)"
  by code_simp+

text \<open>
  Claim C1, as the code has it. For every \<open>userValue\<close> and \<open>chartValue\<close> whose
  double difference \<open>chartValue - userValue\<close> is not \<open>NaN\<close> (all finite values are
  such), and every fabric type that is not the name of a member inherited from
  \<open>Object.prototype\<close>: the reported difference is the double difference rounded to
  one decimal place and read back as a double (an infinite difference, or one of
  magnitude \<open>10^21\<close> or more, is reported as it is); the status is \<open>perfect\<close> exactly
  when the reported difference lies within \<open>perfectMin\<close> and \<open>perfectMax\<close> of the
  fabric's band, otherwise \<open>tight\<close> exactly when it is below \<open>perfectMin\<close>, and
  otherwise \<open>loose\<close>, and then it is above \<open>perfectMax\<close>; the result is the same
  whatever \<open>tightThreshold\<close> and \<open>looseThreshold\<close> the band carries.
\<close>

theorem calculateFitStatus_decision:
  assumes "num_sub c u \<noteq> NaN" and "f \<notin> set objectPrototypeKeys"
  shows "(case num_sub c u of
       Fin x \<Rightarrow>
         difference (calculateFitStatus u c f) = Fin x \<and> 1000000000000000000000 \<le> \<bar>x\<bar> \<or>
         (\<exists>t. nearest_tenth x t \<and> difference (calculateFitStatus u c f) = fl t)
     | y \<Rightarrow> difference (calculateFitStatus u c f) = y) \<and>
    status (calculateFitStatus u c f) =
      (let d = difference (calculateFitStatus u c f) in
       if num_le (perfectMin (bandOf f)) d \<and> num_le d (perfectMax (bandOf f)) then ''perfect''
       else if num_lt d (perfectMin (bandOf f)) then ''tight''
       else ''loose'') \<and>
    (status (calculateFitStatus u c f) = ''loose'' \<longrightarrow>
       num_lt (perfectMax (bandOf f)) (difference (calculateFitStatus u c f))) \<and>
    calculateFitStatus u c f =
      fitStatusWith (OwnConfig ((bandOf f)\<lparr>tightThreshold := t, looseThreshold := l\<rparr>)) u c"
proof -
  have r: "calculateFitStatus u c f = fitStatusWith (OwnConfig (bandOf f)) u c"
    using assms(2) by (simp add: calculateFitStatus_def resolveConfig_bandOf)
  obtain lo hi where b: "perfectMin (bandOf f) = Fin lo" "perfectMax (bandOf f) = Fin hi"
    using bandOf_finite by blast
  have 1: "(case num_sub c u of
       Fin x \<Rightarrow>
         difference (calculateFitStatus u c f) = Fin x \<and> 1000000000000000000000 \<le> \<bar>x\<bar> \<or>
         (\<exists>t. nearest_tenth x t \<and> difference (calculateFitStatus u c f) = fl t)
     | y \<Rightarrow> difference (calculateFitStatus u c f) = y)"
  proof (cases "num_sub c u")
    case (Fin x)
    show ?thesis
      unfolding r fitStatusWith_difference Fin number.case
      by (rule parseFloat_toFixed1_rounds)
  qed (simp_all add: r fitStatusWith_difference)
  have 2: "status (calculateFitStatus u c f) =
      (let d = difference (calculateFitStatus u c f) in
       if num_le (perfectMin (bandOf f)) d \<and> num_le d (perfectMax (bandOf f)) then ''perfect''
       else if num_lt d (perfectMin (bandOf f)) then ''tight''
       else ''loose'')"
    unfolding r fitStatusWith_difference using fitStatusWith_status [OF assms(1) b] .
  have 3: "status (calculateFitStatus u c f) = ''loose'' \<longrightarrow>
       num_lt (perfectMax (bandOf f)) (difference (calculateFitStatus u c f))"
    unfolding r using fitStatusWith_loose [of "OwnConfig (bandOf f)" u c] by simp
  have 4: "calculateFitStatus u c f =
      fitStatusWith (OwnConfig ((bandOf f)\<lparr>tightThreshold := t, looseThreshold := l\<rparr>)) u c"
    unfolding r by (simp only: fitStatusWith_thresholds)
  from 1 2 3 4 show ?thesis by blast
qed

text \<open>
  The theorem at user value 90, chart value 85 and the normal band: the difference is
  \<open>-5\<close>, below \<open>perfectMin = -1.5\<close>, and the status is \<open>tight\<close>.
\<close>

theorem calculateFitStatus_decision_witness:
  "num_sub (Fin 85) (Fin 90) = Fin (- 5) \<and>
   status (calculateFitStatus (Fin 90) (Fin 85) ''normal'') = ''tight'' \<and>
   difference (calculateFitStatus (Fin 90) (Fin 85) ''normal'') = Fin (- 5) \<and>
   (\<exists>t. nearest_tenth (- 5) t \<and> Fin (- 5) = fl t) \<and>
   num_lt (Fin (- 5)) (perfectMin (bandOf ''normal''))"
proof -
  have s: "num_sub (Fin 85) (Fin 90) = Fin (- 5)"
    by code_simp
  have h1: "num_sub (Fin 85) (Fin 90) \<noteq> NaN"
    unfolding s by simp
  have h2: "''normal'' \<notin> set objectPrototypeKeys"
    by (simp add: objectPrototypeKeys_def)
  have d: "difference (calculateFitStatus (Fin 90) (Fin 85) ''normal'') = Fin (- 5)"
    by code_simp
  have b: "perfectMin (bandOf ''normal'') = Fin (- 3 / 2)"
      "perfectMax (bandOf ''normal'') = Fin 2"
    by (simp_all add: bandOf_def normal_def)
  note th = calculateFitStatus_decision [OF h1 h2, of "Fin 100" "Fin (- 100)"]
  have e1: "\<exists>t. nearest_tenth (- 5) t \<and> Fin (- 5) = fl t"
    using th [THEN conjunct1] unfolding s d by simp
  have e2: "status (calculateFitStatus (Fin 90) (Fin 85) ''normal'') = ''tight''"
    using th [THEN conjunct2, THEN conjunct1] unfolding d b by simp
  show ?thesis
    using s d e1 e2 b by simp
qed

text \<open>
  Claim C1 as it is worded covers every \<open>userValue\<close>. With \<open>NaN\<close> for the user
  value the difference is \<open>NaN\<close>, all three comparisons are false and the fallback
  branch answers \<open>good\<close>, which is none of \<open>perfect\<close>, \<open>tight\<close> and \<open>loose\<close>.
\<close>

theorem calculateFitStatus_NaN_counterexample:
  "calculateFitStatus NaN (Fin 91) ''normal'' = \<lparr>status = ''good'', difference = NaN\<rparr> \<and>
   status (calculateFitStatus NaN (Fin 91) ''normal'') \<notin> {''perfect'', ''tight'', ''loose''}"
  by (simp add: calculateFitStatus_def fitStatusWith_NaN)

text \<open>
  Claim C4 says that every fabric type other than \<open>rigid\<close>, \<open>normal\<close> and
  \<open>stretchy\<close> is classified with the normal band. The fabric type \<open>constructor\<close>
  is not: the property read finds the inherited \<open>Object\<close> function, which is truthy
  and has no \<open>perfectMin\<close> or \<open>perfectMax\<close>, so at user value 90 and chart value 91
  the status is \<open>good\<close>, where the normal band gives \<open>perfect\<close>.
\<close>

theorem inherited_fabric_key_not_normal:
  "calculateFitStatus (Fin 90) (Fin 91) ''constructor'' =
     \<lparr>status = ''good'', difference = Fin 1\<rparr> \<and>
   calculateFitStatus (Fin 90) (Fin 91) ''normal'' =
     \<lparr>status = ''perfect'', difference = Fin 1\<rparr>"
proof -
  have d: "parseFloat_toFixed1 (num_sub (Fin 91) (Fin 90)) = Fin 1"
    by code_simp
  show ?thesis
    by (simp add: calculateFitStatus_def fitStatusWith_def resolveConfig_def getConfig_def
        FABRIC_EASE_CONFIGS_def objectPrototypeKeys_def num_ge_def num_gt_def d normal_def
        del: num_sub.simps parseFloat_toFixed1.simps)
qed

text \<open>
  Claim C5: the three configured bands are \<open>rigid = (0, 2, 4, 6)\<close>,
  \<open>normal = (-3, -1.5, 2, 4)\<close> and \<open>stretchy = (-6, -4, 1, 3)\<close>, read as
  (\<open>tightThreshold\<close>, \<open>perfectMin\<close>, \<open>perfectMax\<close>, \<open>looseThreshold\<close>), and each
  of them satisfies \<open>tightThreshold \<le> perfectMin \<le> perfectMax \<le> looseThreshold\<close>.
\<close>

theorem fabric_bands_ordered:
  "map (\<lambda>(k, b). (k, tightThreshold b, perfectMin b, perfectMax b, looseThreshold b))
       FABRIC_EASE_CONFIGS =
     [(''rigid'', Fin 0, Fin 2, Fin 4, Fin 6),
      (''normal'', Fin (- 3), Fin (- 3 / 2), Fin 2, Fin 4),
      (''stretchy'', Fin (- 6), Fin (- 4), Fin 1, Fin 3)] \<and>
   list_all band_ordered (map snd FABRIC_EASE_CONFIGS)"
  by (simp add: FABRIC_EASE_CONFIGS_def band_ordered_def rigid_def normal_def stretchy_def)

text \<open>
  Claim C9 says that for finite values and every fabric type the fallback branch of
  \<open>calculateFitStatus\<close> is never taken. It is taken for the fabric type
  \<open>toString\<close>: with user value 80 and chart value 86 the status is \<open>good\<close>.
\<close>

theorem fallback_branch_reached:
  "status (calculateFitStatus (Fin 80) (Fin 86) ''toString'') = ''good''"
proof -
  have d: "parseFloat_toFixed1 (num_sub (Fin 86) (Fin 80)) = Fin 6"
    by code_simp
  show ?thesis
    by (simp add: calculateFitStatus_def fitStatusWith_def resolveConfig_def getConfig_def
        FABRIC_EASE_CONFIGS_def objectPrototypeKeys_def num_ge_def num_gt_def d
        del: num_sub.simps parseFloat_toFixed1.simps)
qed

section \<open>Properties of the aggregator\<close>

lemma includes_tight_cases:
  "str_includes (toLowerCase ''Perfect'') ''tight'' = False"
  "str_includes (toLowerCase ''Good'') ''tight'' = False"
  "str_includes (toLowerCase ''Tight'') ''tight'' = True"
  "str_includes (toLowerCase ''Loose'') ''tight'' = False"
  by code_simp+

lemma includes_loose_cases:
  "str_includes (toLowerCase ''Perfect'') ''loose'' = False"
  "str_includes (toLowerCase ''Good'') ''loose'' = False"
  "str_includes (toLowerCase ''Tight'') ''loose'' = False"
  "str_includes (toLowerCase ''Loose'') ''loose'' = True"
  by code_simp+

lemma includes_perfect_cases:
  "str_includes (toLowerCase ''Perfect'') ''perfect'' = True"
  "str_includes (toLowerCase ''Good'') ''perfect'' = False"
  "str_includes (toLowerCase ''Tight'') ''perfect'' = False"
  "str_includes (toLowerCase ''Loose'') ''perfect'' = False"
  by code_simp+

lemma capitalize_cases:
  "capitalize ''perfect'' = ''Perfect''"
  "capitalize ''good'' = ''Good''"
  "capitalize ''tight'' = ''Tight''"
  "capitalize ''loose'' = ''Loose''"
  by code_simp+

lemma includes_tight_iff:
  "s \<in> displayStatuses \<Longrightarrow> str_includes (toLowerCase s) ''tight'' \<longleftrightarrow> s = ''Tight''"
  unfolding displayStatuses_def using includes_tight_cases by auto

lemma includes_loose_iff:
  "s \<in> displayStatuses \<Longrightarrow> str_includes (toLowerCase s) ''loose'' \<longleftrightarrow> s = ''Loose''"
  unfolding displayStatuses_def using includes_loose_cases by auto

lemma includes_perfect_iff:
  "s \<in> displayStatuses \<Longrightarrow> str_includes (toLowerCase s) ''perfect'' \<longleftrightarrow> s = ''Perfect''"
  unfolding displayStatuses_def using includes_perfect_cases by auto

lemma capitalize_display: "s \<in> fitStatuses \<Longrightarrow> capitalize s \<in> displayStatuses"
  unfolding fitStatuses_def displayStatuses_def using capitalize_cases by auto

lemma capitalize_iff:
  assumes "s \<in> fitStatuses"
  shows "capitalize s = ''Tight'' \<longleftrightarrow> s = ''tight''"
    and "capitalize s = ''Loose'' \<longleftrightarrow> s = ''loose''"
    and "capitalize s = ''Perfect'' \<longleftrightarrow> s = ''perfect''"
  using assms unfolding fitStatuses_def using capitalize_cases by auto

lemma derive_on_display_statuses:
  assumes "comparisons \<noteq> []"
    and "\<forall>m \<in> set comparisons. status m \<in> displayStatuses"
  shows "deriveActualConfidence comparisons fallback =
    (if \<exists>m \<in> set comparisons. status m = ''Tight'' then ''Tight''
     else if \<exists>m \<in> set comparisons. status m = ''Loose'' then ''Loose''
     else if \<forall>m \<in> set comparisons. status m = ''Perfect'' then ''Perfect''
     else ''Good'')"
proof -
  have t: "list_ex (\<lambda>m. str_includes (toLowerCase (status m)) ''tight'') comparisons
      \<longleftrightarrow> (\<exists>m \<in> set comparisons. status m = ''Tight'')"
    using assms(2) by (simp add: list_ex_iff includes_tight_iff)
  have l: "list_ex (\<lambda>m. str_includes (toLowerCase (status m)) ''loose'') comparisons
      \<longleftrightarrow> (\<exists>m \<in> set comparisons. status m = ''Loose'')"
    using assms(2) by (simp add: list_ex_iff includes_loose_iff)
  have p: "list_all (\<lambda>m. str_includes (toLowerCase (status m)) ''perfect'') comparisons
      \<longleftrightarrow> (\<forall>m \<in> set comparisons. status m = ''Perfect'')"
    using assms(2) by (simp add: list_all_iff includes_perfect_iff)
  show ?thesis
    unfolding deriveActualConfidence_def Let_def t l p using assms(1) by simp
qed

lemma deriveActualConfidence_nonempty:
  "comparisons \<noteq> [] \<Longrightarrow> deriveActualConfidence comparisons fallback \<in> displayStatuses"
  by (simp add: deriveActualConfidence_def Let_def displayStatuses_def)

text \<open>What an entry that is pushed looks like.\<close>

lemma comparisonOf_Some:
  assumes "comparisonOf p f e = Some m"
  obtains k u c where "e = (k, JNum c)" "k \<noteq> ''size''" "p (userKeyOf k) = JNum u"
    "m = \<lparr>status = capitalize (status (calculateFitStatus u c f)),
          difference = difference (calculateFitStatus u c f),
          key = k, userValue = u, chartValue = c\<rparr>"
proof -
  obtain k cv where e: "e = (k, cv)"
    by (cases e)
  from assms e have k: "k \<noteq> ''size''" and n: "typeof_is_number cv"
    by (auto simp add: comparisonOf_def split: if_splits)
  from n obtain c where cv: "cv = JNum c"
    by (cases cv) auto
  from assms e k cv obtain u where u: "p (userKeyOf k) = JNum u"
    by (cases "p (userKeyOf k)") (auto simp add: comparisonOf_def)
  from assms e k cv u
  have "m = \<lparr>status = capitalize (status (calculateFitStatus u c f)),
          difference = difference (calculateFitStatus u c f),
          key = k, userValue = u, chartValue = c\<rparr>"
    by (simp add: comparisonOf_def Let_def)
  with e cv k u show ?thesis
    using that by blast
qed

lemma comparisonOf_status:
  "comparisonOf p f e = Some m \<Longrightarrow> status m \<in> displayStatuses"
  by (erule comparisonOf_Some) (simp add: capitalize_display calculateFitStatus_fitStatuses)

lemma set_map_filter: "set (List.map_filter g xs) = {y. \<exists>x \<in> set xs. g x = Some y}"
  by (induction xs) (auto split: option.splits)

lemma measurementComparisons_statuses:
  "m \<in> set (measurementComparisons p f es) \<Longrightarrow> status m \<in> displayStatuses"
  by (auto simp add: measurementComparisons_def set_map_filter comparisonOf_status
      split: option.splits if_splits)

text \<open>
  Claim C2: for a non-empty list of per-measurement verdicts (entries of
  \<open>measurementComparisons\<close>, whose status is one of \<open>Perfect\<close>, \<open>Good\<close>,
  \<open>Tight\<close>, \<open>Loose\<close>) the derived confidence is \<open>Tight\<close> whenever some verdict
  is tight; otherwise \<open>Loose\<close> whenever some verdict is loose; otherwise \<open>Perfect\<close>
  if and only if every verdict is perfect; and \<open>Good\<close> in every remaining case.
\<close>

theorem deriveActualConfidence_priority:
  assumes "comparisons \<noteq> []"
    and "\<forall>m \<in> set comparisons. status m \<in> displayStatuses"
  shows "deriveActualConfidence comparisons fallback =
    (if \<exists>m \<in> set comparisons. status m = ''Tight'' then ''Tight''
     else if \<exists>m \<in> set comparisons. status m = ''Loose'' then ''Loose''
     else if \<forall>m \<in> set comparisons. status m = ''Perfect'' then ''Perfect''
     else ''Good'')"
  using assms by (rule derive_on_display_statuses)

text \<open>One perfect, one loose and one tight verdict give \<open>Tight\<close>.\<close>

theorem deriveActualConfidence_priority_witness:
  "deriveActualConfidence
     [\<lparr>status = ''Perfect'', difference = Fin 1, key = ''chest'',
        userValue = Fin 90, chartValue = Fin 91\<rparr>,
      \<lparr>status = ''Loose'', difference = Fin 6, key = ''waist'',
        userValue = Fin 80, chartValue = Fin 86\<rparr>,
      \<lparr>status = ''Tight'', difference = Fin (- 5), key = ''hip'',
        userValue = Fin 95, chartValue = Fin 90\<rparr>] ''High'' = ''Tight''"
  using deriveActualConfidence_priority [of
     "[\<lparr>status = ''Perfect'', difference = Fin 1, key = ''chest'',
        userValue = Fin 90, chartValue = Fin 91\<rparr>,
      \<lparr>status = ''Loose'', difference = Fin 6, key = ''waist'',
        userValue = Fin 80, chartValue = Fin 86\<rparr>,
      \<lparr>status = ''Tight'', difference = Fin (- 5), key = ''hip'',
        userValue = Fin 95, chartValue = Fin 90\<rparr>]" "''High''"]
  by (simp add: displayStatuses_def)

text \<open>
  Claim C3: for every fallback string, deriving the confidence from an empty list of
  verdicts returns the fallback unchanged.
\<close>

theorem deriveActualConfidence_empty: "deriveActualConfidence [] fallback = fallback"
  by (simp add: deriveActualConfidence_def)

text \<open>
  Claim C7, as the code has it. Whenever at least one measurement has been compared,
  the overall confidence is one of \<open>Perfect\<close>, \<open>Good\<close>, \<open>Tight\<close> and \<open>Loose\<close>;
  when none has, it is the externally supplied confidence, unchanged.
\<close>

theorem actualConfidence_values:
  "(measurementComparisons p f es = [] \<longrightarrow> actualConfidence p f confidence es = confidence) \<and>
   (measurementComparisons p f es \<noteq> [] \<longrightarrow>
      actualConfidence p f confidence es \<in> {''Perfect'', ''Good'', ''Tight'', ''Loose''})"
  using deriveActualConfidence_nonempty [of "measurementComparisons p f es" confidence]
  by (simp add: actualConfidence_def deriveActualConfidence_def displayStatuses_def)

text \<open>
  Both cases: a profile with a chest measurement against a chart row with a chest
  value, and the same row while the profile has not been loaded.
\<close>

theorem actualConfidence_values_witness:
  "actualConfidence (Some (\<lambda>k. if k = ''chest'' then JNum (Fin 90) else JUndefined))
     ''normal'' ''High'' [(''size'', JStr ''M''), (''chest'', JNum (Fin 85))]
     \<in> {''Perfect'', ''Good'', ''Tight'', ''Loose''} \<and>
   actualConfidence None ''normal'' ''High'' [(''size'', JStr ''M''), (''chest'', JNum (Fin 85))]
     = ''High''"
proof -
  have n: "measurementComparisons
      (Some (\<lambda>k. if k = ''chest'' then JNum (Fin 90) else JUndefined))
      ''normal'' [(''size'', JStr ''M''), (''chest'', JNum (Fin 85))] \<noteq> []"
    by code_simp
  have e: "measurementComparisons None ''normal''
      [(''size'', JStr ''M''), (''chest'', JNum (Fin 85))] = []"
    by (simp add: measurementComparisons_def)
  show ?thesis
    using actualConfidence_values
        [of "Some (\<lambda>k. if k = ''chest'' then JNum (Fin 90) else JUndefined)"
          "''normal''" "[(''size'', JStr ''M''), (''chest'', JNum (Fin 85))]" "''High''"]
      actualConfidence_values [of None "''normal''"
        "[(''size'', JStr ''M''), (''chest'', JNum (Fin 85))]" "''High''"] n e
    by simp
qed

text \<open>
  Claim C7 as it is worded covers every chart and every supplied confidence. A chart
  row none of whose keys the profile has leaves the comparison list empty, and the
  supplied confidence \<open>High\<close> is returned as it is.
\<close>

theorem fallback_confidence_counterexample:
  "actualConfidence (Some (\<lambda>k. if k = ''chest'' then JNum (Fin 90) else JUndefined))
     ''normal'' ''High'' [(''size'', JStr ''M''), (''length'', JNum (Fin 70))] = ''High'' \<and>
   ''High'' \<notin> {''Perfect'', ''Good'', ''Tight'', ''Loose''}"
proof -
  have "actualConfidence (Some (\<lambda>k. if k = ''chest'' then JNum (Fin 90) else JUndefined))
     ''normal'' ''High'' [(''size'', JStr ''M''), (''length'', JNum (Fin 70))] = ''High''"
    by code_simp
  then show ?thesis
    by simp
qed

section \<open>The two overall-fit derivations\<close>

lemma derive_on_capitalized:
  assumes "ss \<noteq> []" and "set ss \<subseteq> fitStatuses"
    and "map status comparisons = map capitalize ss"
  shows "deriveActualConfidence comparisons fallback =
    (if ''tight'' \<in> set ss then ''Tight''
     else if ''loose'' \<in> set ss then ''Loose''
     else if \<forall>s \<in> set ss. s = ''perfect'' then ''Perfect''
     else ''Good'')"
proof -
  have ne: "comparisons \<noteq> []"
    using assms(1,3) by auto
  have sm: "status ` set comparisons = capitalize ` set ss"
    using assms(3) by (metis set_map)
  have fs: "s \<in> fitStatuses" if "s \<in> set ss" for s
    using that assms(2) by (rule subsetD [rotated])
  have disp: "\<forall>m \<in> set comparisons. status m \<in> displayStatuses"
  proof
    fix m assume "m \<in> set comparisons"
    then have "status m \<in> capitalize ` set ss"
      using sm by blast
    then obtain s where "s \<in> set ss" "status m = capitalize s"
      by (rule imageE)
    then show "status m \<in> displayStatuses"
      using fs by (simp add: capitalize_display)
  qed
  have ex: "(\<exists>m \<in> set comparisons. status m = w) \<longleftrightarrow> (\<exists>s \<in> set ss. capitalize s = w)" for w
  proof -
    have "(\<exists>m \<in> set comparisons. status m = w) \<longleftrightarrow> w \<in> status ` set comparisons"
      by blast
    also have "\<dots> \<longleftrightarrow> (\<exists>s \<in> set ss. capitalize s = w)"
      unfolding sm by blast
    finally show ?thesis .
  qed
  have al: "(\<forall>m \<in> set comparisons. status m = w) \<longleftrightarrow> (\<forall>s \<in> set ss. capitalize s = w)" for w
  proof -
    have "(\<forall>m \<in> set comparisons. status m = w) \<longleftrightarrow> status ` set comparisons \<subseteq> {w}"
      by blast
    also have "\<dots> \<longleftrightarrow> (\<forall>s \<in> set ss. capitalize s = w)"
      unfolding sm by blast
    finally show ?thesis .
  qed
  have t: "(\<exists>s \<in> set ss. capitalize s = ''Tight'') \<longleftrightarrow> ''tight'' \<in> set ss"
    using fs by (auto simp add: capitalize_iff(1))
  have l: "(\<exists>s \<in> set ss. capitalize s = ''Loose'') \<longleftrightarrow> ''loose'' \<in> set ss"
    using fs by (auto simp add: capitalize_iff(2))
  have p: "(\<forall>s \<in> set ss. capitalize s = ''Perfect'') \<longleftrightarrow> (\<forall>s \<in> set ss. s = ''perfect'')"
    using fs by (auto simp add: capitalize_iff(3))
  show ?thesis
    unfolding derive_on_display_statuses [OF ne disp] ex al t l p ..
qed

lemma overallFit_on_statuses:
  assumes "ss \<noteq> []" and "map detailStatus details = ss"
  shows "overallFit details =
    (if \<forall>s \<in> set ss. s = ''perfect'' then ''perfect''
     else if ''tight'' \<in> set ss then ''tight''
     else if ''loose'' \<in> set ss then ''loose''
     else ''good'')"
proof -
  have ne: "details \<noteq> []"
    using assms by auto
  have sd: "detailStatus ` set details = set ss"
    using assms(2) by (metis set_map)
  have dt: "list_ex (\<lambda>f. detailStatus f = w) details \<longleftrightarrow> w \<in> set ss" for w
    unfolding list_ex_iff sd [symmetric] by blast
  have dp: "list_all (\<lambda>f. detailStatus f = ''perfect'') details
      \<longleftrightarrow> (\<forall>s \<in> set ss. s = ''perfect'')"
    unfolding list_all_iff sd [symmetric] by blast
  show ?thesis
    unfolding overallFit_def dt dp using ne by simp
qed

text \<open>
  For one size, profile and fabric the two lists carry the same statuses, capitalised
  in the comparison list.
\<close>

lemma comparisonOf_fitDetailOf:
  "map_option status (comparisonOf p f e)
     = map_option (\<lambda>d. capitalize (detailStatus d)) (fitDetailOf p f e)"
  by (cases e) (auto simp add: comparisonOf_def fitDetailOf_def Let_def split: jsvalue.splits)

lemma statuses_of_one_size:
  "map status (measurementComparisons (Some p) f es)
     = map capitalize (map detailStatus (fitDetails p f es))"
proof (induction es)
  case Nil
  show ?case
    by (simp add: measurementComparisons_def fitDetails_def)
next
  case (Cons e es)
  have IH: "map status (List.map_filter (comparisonOf p f) es)
      = map capitalize (map detailStatus (List.map_filter (fitDetailOf p f) es))"
    using Cons.IH by (cases es) (simp_all add: measurementComparisons_def fitDetails_def)
  show ?case
    using IH comparisonOf_fitDetailOf [of p f e]
    by (cases "comparisonOf p f e"; cases "fitDetailOf p f e")
      (simp_all add: measurementComparisons_def fitDetails_def)
qed

text \<open>
  Claim C10: for every non-empty list of per-measurement statuses (each one of
  \<open>perfect\<close>, \<open>good\<close>, \<open>tight\<close>, \<open>loose\<close>), the confidence that
  \<open>deriveActualConfidence\<close> computes from the capitalised statuses equals the
  \<open>overallFit\<close> of the size comparison view with its first letter capitalised.
\<close>

theorem overall_fit_agreement:
  assumes "ss \<noteq> []" and "set ss \<subseteq> fitStatuses"
    and "map status comparisons = map capitalize ss"
    and "map detailStatus details = ss"
  shows "deriveActualConfidence comparisons fallback = capitalize (overallFit details)"
proof -
  obtain s0 where s0: "s0 \<in> set ss"
    using assms(1) by (cases ss) auto
  show ?thesis
    unfolding derive_on_capitalized [OF assms(1,2,3)] overallFit_on_statuses [OF assms(1,4)]
    using s0 by (auto simp add: capitalize_cases)
qed

text \<open>A perfect chest and a loose waist: \<open>Loose\<close> on one side, \<open>loose\<close> on the other.\<close>

theorem overall_fit_agreement_witness:
  "deriveActualConfidence
     [\<lparr>status = ''Perfect'', difference = Fin 1, key = ''chest'',
        userValue = Fin 90, chartValue = Fin 91\<rparr>,
      \<lparr>status = ''Loose'', difference = Fin 6, key = ''waist'',
        userValue = Fin 80, chartValue = Fin 86\<rparr>] ''High'' = ''Loose'' \<and>
   overallFit
     [\<lparr>detailKey = ''chest'', detailUserValue = Fin 90, detailChartValue = Fin 91,
        detailStatus = ''perfect''\<rparr>,
      \<lparr>detailKey = ''waist'', detailUserValue = Fin 80, detailChartValue = Fin 86,
        detailStatus = ''loose''\<rparr>] = ''loose''"
proof -
  have h1: "[''perfect'', ''loose''] \<noteq> []"
    by simp
  have h2: "set [''perfect'', ''loose''] \<subseteq> fitStatuses"
    by (simp add: fitStatuses_def)
  have h3: "map status
     [\<lparr>status = ''Perfect'', difference = Fin 1, key = ''chest'',
        userValue = Fin 90, chartValue = Fin 91\<rparr>,
      \<lparr>status = ''Loose'', difference = Fin 6, key = ''waist'',
        userValue = Fin 80, chartValue = Fin 86\<rparr>] = map capitalize [''perfect'', ''loose'']"
    by (simp add: capitalize_cases)
  have h4: "map detailStatus
     [\<lparr>detailKey = ''chest'', detailUserValue = Fin 90, detailChartValue = Fin 91,
        detailStatus = ''perfect''\<rparr>,
      \<lparr>detailKey = ''waist'', detailUserValue = Fin 80, detailChartValue = Fin 86,
        detailStatus = ''loose''\<rparr>] = [''perfect'', ''loose'']"
    by simp
  have o: "overallFit
     [\<lparr>detailKey = ''chest'', detailUserValue = Fin 90, detailChartValue = Fin 91,
        detailStatus = ''perfect''\<rparr>,
      \<lparr>detailKey = ''waist'', detailUserValue = Fin 80, detailChartValue = Fin 86,
        detailStatus = ''loose''\<rparr>] = ''loose''"
    by (simp add: overallFit_def)
  show ?thesis
    using overall_fit_agreement [OF h1 h2 h3 h4, of "''High''"] o
    by (simp add: capitalize_cases)
qed

section \<open>Key normalisation and skipped entries\<close>

lemma str_includes_char: "str_includes k [x] \<longleftrightarrow> x \<in> set k"
  unfolding str_includes_def
  by (induction k) (auto simp add: sublist_Cons_right)

lemma camelCase_no_separator: "CHR ''_'' \<notin> set k \<Longrightarrow> camelCase k = k"
  by (induction k rule: camelCase.induct) auto

lemma separators_followed_tl: "separators_followed (d # s) \<Longrightarrow> separators_followed s"
  by (cases s) auto

lemma replaceSeparators_camelCase:
  "separators_followed k \<Longrightarrow> replaceSeparators k = camelCase k"
proof (induction k rule: replaceSeparators.induct)
  case 1
  show ?case by simp
next
  case (2 c)
  then show ?case by simp
next
  case (3 c d s)
  have tl: "separators_followed s"
    using "3.prems" by (auto dest: separators_followed_tl)
  show ?case
  proof (cases "c = CHR ''_''")
    case True
    with "3.prems" have nl: "d \<noteq> CHR ''_''" "\<not> isLineTerminator d"
      by simp_all
    with True "3.IH"(1) tl show ?thesis
      by (simp add: toUpperCase_def)
  next
    case False
    with "3.prems" "3.IH"(2) show ?thesis
      by simp
  qed
qed

lemma replaceSeparators_trailing:
  "separators_followed k \<Longrightarrow> replaceSeparators (k @ ''_'') = camelCase k @ ''_''"
proof (induction k rule: replaceSeparators.induct)
  case 1
  show ?case by simp
next
  case (2 c)
  then show ?case by simp
next
  case (3 c d s)
  have tl: "separators_followed s"
    using "3.prems" by (auto dest: separators_followed_tl)
  show ?case
  proof (cases "c = CHR ''_''")
    case True
    with "3.prems" have nl: "d \<noteq> CHR ''_''" "\<not> isLineTerminator d"
      by simp_all
    with True "3.IH"(1) tl show ?thesis
      by (simp add: toUpperCase_def)
  next
    case False
    with "3.prems" "3.IH"(2) show ?thesis
      by simp
  qed
qed

lemma userKeyOf_trailing:
  "separators_followed k \<Longrightarrow> userKeyOf (k @ ''_'') = camelCase k @ ''_''"
  by (simp add: userKeyOf_def str_includes_char replaceSeparators_trailing)

lemma userKeyOf_camelCase: "separators_followed k \<Longrightarrow> userKeyOf k = camelCase k"
  by (simp add: userKeyOf_def str_includes_char replaceSeparators_camelCase
      camelCase_no_separator)

lemma comparisonOf_not_comparable: "\<not> comparable e \<Longrightarrow> comparisonOf p f e = None"
  by (cases e) (auto simp add: comparable_def comparisonOf_def)

lemma map_filter_filter:
  "(\<And>x. \<not> P x \<Longrightarrow> g x = None) \<Longrightarrow> List.map_filter g (filter P xs) = List.map_filter g xs"
  by (induction xs) (auto split: option.splits)

lemma measurementComparisons_filter:
  "measurementComparisons p f (filter comparable es) = measurementComparisons p f es"
proof (cases p)
  case None
  then show ?thesis
    by (simp add: measurementComparisons_def)
next
  case (Some pr)
  have m: "List.map_filter (comparisonOf pr f) (filter comparable es)
      = List.map_filter (comparisonOf pr f) es"
    by (rule map_filter_filter) (rule comparisonOf_not_comparable)
  have e: "List.map_filter (comparisonOf pr f) es = []" if "filter comparable es = []"
    using m that by simp
  show ?thesis
    using Some m e by (cases es) (auto simp add: measurementComparisons_def)
qed

lemma measurementComparisons_member:
  assumes "m \<in> set (measurementComparisons p f es)"
  shows "key m \<noteq> ''size'' \<and> (key m, JNum (chartValue m)) \<in> set es \<and>
    (\<exists>pr. p = Some pr \<and> pr (userKeyOf (key m)) = JNum (userValue m))"
proof -
  from assms obtain pr where p: "p = Some pr"
    by (cases p) (auto simp add: measurementComparisons_def)
  from assms p obtain e where e: "e \<in> set es" "comparisonOf pr f e = Some m"
    by (auto simp add: measurementComparisons_def set_map_filter split: if_splits)
  from e(2) show ?thesis
  proof (rule comparisonOf_Some)
    fix k u c
    assume "e = (k, JNum c)" "k \<noteq> ''size''" "pr (userKeyOf k) = JNum u"
      "m = \<lparr>status = capitalize (status (calculateFitStatus u c f)),
          difference = difference (calculateFitStatus u c f),
          key = k, userValue = u, chartValue = c\<rparr>"
    with e(1) p show ?thesis
      by simp
  qed
qed

text \<open>
  Claim C6, as the code has it. In an ASCII key every underscore of which is followed
  by a character that is neither an underscore nor a line terminator, the underscores
  are deleted and the character after each is capitalised (\<open>arm_length\<close> becomes
  \<open>armLength\<close>); an underscore appended to such a key has no character after it
  and is kept; the profile is read under the key so normalised. An entry whose key is
  \<open>size\<close> or whose chart value is not a number is skipped: the comparison list is
  the one built from the remaining entries, and each of its members comes from an
  entry with a numeric value and a key other than \<open>size\<close>.
\<close>

theorem key_normalisation_and_skipping:
  "(ascii_key k \<and> separators_followed k \<longrightarrow> userKeyOf k = camelCase k) \<and>
   (ascii_key k \<and> separators_followed k \<longrightarrow> userKeyOf (k @ ''_'') = camelCase k @ ''_'') \<and>
   measurementComparisons p f es = measurementComparisons p f (filter comparable es) \<and>
   (\<forall>m \<in> set (measurementComparisons p f es).
      key m \<noteq> ''size'' \<and> (key m, JNum (chartValue m)) \<in> set es \<and>
      (\<exists>pr. p = Some pr \<and> pr (userKeyOf (key m)) = JNum (userValue m)))"
  using userKeyOf_camelCase [of k] userKeyOf_trailing [of k]
    measurementComparisons_filter [of p f es] measurementComparisons_member [of _ p f es]
  by simp

text \<open>
  A chart row with a size label, an \<open>arm_length\<close>, a textual chest entry and a waist,
  against a profile with \<open>armLength\<close> and \<open>waist\<close>.
\<close>

theorem key_normalisation_and_skipping_witness:
  "ascii_key ''arm_length'' \<and> separators_followed ''arm_length'' \<and>
   userKeyOf ''arm_length'' = ''armLength'' \<and>
   userKeyOf ''arm_length_'' = ''armLength_'' \<and>
   map key (measurementComparisons
     (Some (\<lambda>k. if k = ''armLength'' then JNum (Fin 61)
        else if k = ''waist'' then JNum (Fin 72) else JUndefined)) ''normal''
     [(''size'', JStr ''M''), (''arm_length'', JNum (Fin 60)),
      (''chest'', JStr ''n/a''), (''waist'', JNum (Fin 70))]) = [''arm_length'', ''waist'']"
proof -
  have e0: "ascii_key ''arm_length''"
    by code_simp
  have e1: "separators_followed ''arm_length''"
    by code_simp
  have e2: "camelCase ''arm_length'' = ''armLength''"
    by code_simp
  have e3: "map key (measurementComparisons
     (Some (\<lambda>k. if k = ''armLength'' then JNum (Fin 61)
        else if k = ''waist'' then JNum (Fin 72) else JUndefined)) ''normal''
     (filter comparable [(''size'', JStr ''M''), (''arm_length'', JNum (Fin 60)),
      (''chest'', JStr ''n/a''), (''waist'', JNum (Fin 70))])) = [''arm_length'', ''waist'']"
    by code_simp
  show ?thesis
    using key_normalisation_and_skipping [of "''arm_length''"
      "Some (\<lambda>k. if k = ''armLength'' then JNum (Fin 61)
        else if k = ''waist'' then JNum (Fin 72) else JUndefined)" "''normal''"
      "[(''size'', JStr ''M''), (''arm_length'', JNum (Fin 60)),
      (''chest'', JStr ''n/a''), (''waist'', JNum (Fin 70))]"] e0 e1 e2 e3
    by simp
qed

text \<open>
  Claim C6 as it is worded covers every key with an underscore. In \<open>arm_\<close> no
  character follows the underscore, the pattern \<open>/_./\<close> does not match, and the
  underscore stays, where removing the separators gives \<open>arm\<close>. In \<open>a__b\<close> the
  pattern takes the two underscores as one match and puts the second back, so one
  underscore stays and \<open>b\<close> is not capitalised, where removing the separators and
  capitalising what follows gives \<open>aB\<close>.
\<close>

theorem trailing_separator_kept:
  "userKeyOf ''arm_'' = ''arm_'' \<and> camelCase ''arm_'' = ''arm'' \<and>
   userKeyOf ''a__b'' = ''a_b'' \<and> camelCase ''a__b'' = ''aB''"
  by code_simp

section \<open>The displayed range\<close>

lemma fitDetailOf_chartValue:
  "map_option detailChartValue (fitDetailOf p f e)
     = map_option detailChartValue (fitDetailOf p f' e)"
  by (cases e) (auto simp add: fitDetailOf_def split: jsvalue.splits)

lemma fitDetails_chartValues:
  "map detailChartValue (fitDetails p f es) = map detailChartValue (fitDetails p f' es)"
proof (induction es)
  case Nil
  show ?case
    by (simp add: fitDetails_def)
next
  case (Cons e es)
  show ?case
    using Cons.IH fitDetailOf_chartValue [of p f e f']
    by (cases "fitDetailOf p f e"; cases "fitDetailOf p f' e") (simp_all add: fitDetails_def)
qed

lemma detailRange_map:
  "map detailRange ds = map (\<lambda>c. (rangeMin c, rangeMax c)) (map detailChartValue ds)"
  by (simp add: detailRange_def)

lemma double_literals:
  "fl (95 / 100) = Fin (4278419646001971 / 4503599627370496)"
  "fl (105 / 100) = Fin (4728779608739021 / 4503599627370496)"
  by code_simp+

text \<open>
  Claim C8, as the code has it. The two numbers of the range text are
  \<open>Math.floor\<close> of the double product of the chart value and \<open>0.95\<close> and
  \<open>Math.ceil\<close> of its double product with \<open>1.05\<close>, and the ranges of a detail list
  are the same whatever the fabric type, so they do not depend on the tolerance band.
  For a finite chart value whose two products \<open>a\<close> and \<open>b\<close> are finite, the ends are
  integers: the lower end is the integer with \<open>lo \<le> a < lo + 1\<close>, the upper end
  the integer with \<open>hi - 1 < b \<le> hi\<close>.
\<close>

theorem display_range:
  "map detailRange (fitDetails p f es) = map detailRange (fitDetails p f' es) \<and>
   detailRange d =
     (Math_floor (num_mul (detailChartValue d) (fl (95 / 100))),
      Math_ceil (num_mul (detailChartValue d) (fl (105 / 100)))) \<and>
   (detailChartValue d = Fin c \<and> num_mul (Fin c) (fl (95 / 100)) = Fin a \<and>
    num_mul (Fin c) (fl (105 / 100)) = Fin b \<longrightarrow>
      (\<exists>lo hi :: int. detailRange d = (Fin (of_int lo), Fin (of_int hi)) \<and>
         of_int lo \<le> a \<and> a < of_int lo + 1 \<and> of_int hi - 1 < b \<and> b \<le> of_int hi))"
proof -
  have 1: "map detailRange (fitDetails p f es) = map detailRange (fitDetails p f' es)"
    unfolding detailRange_map by (simp only: fitDetails_chartValues [of p f es f'])
  have 2: "detailRange d =
     (Math_floor (num_mul (detailChartValue d) (fl (95 / 100))),
      Math_ceil (num_mul (detailChartValue d) (fl (105 / 100))))"
    by (simp add: detailRange_def rangeMin_def rangeMax_def)
  have 3: "\<exists>lo hi :: int. detailRange d = (Fin (of_int lo), Fin (of_int hi)) \<and>
         of_int lo \<le> a \<and> a < of_int lo + 1 \<and> of_int hi - 1 < b \<and> b \<le> of_int hi"
    if h: "detailChartValue d = Fin c" "num_mul (Fin c) (fl (95 / 100)) = Fin a"
      "num_mul (Fin c) (fl (105 / 100)) = Fin b"
  proof -
    have r: "detailRange d = (Fin (of_int \<lfloor>a\<rfloor>), Fin (of_int \<lceil>b\<rceil>))"
      unfolding 2 h by simp
    have "of_int \<lfloor>a\<rfloor> \<le> a \<and> a < of_int \<lfloor>a\<rfloor> + 1 \<and> of_int \<lceil>b\<rceil> - 1 < b \<and> b \<le> of_int \<lceil>b\<rceil>"
      by linarith
    with r show ?thesis
      by blast
  qed
  from 1 2 3 show ?thesis
    by blast
qed

text \<open>
  A chart row with a chest of 91 and a waist of 86 against a profile with both: the
  ranges are 86 to 96 and 81 to 91, for the rigid band as for the stretchy one. The
  double products of 91 are \<open>86.45\<close> and \<open>95.55\<close>, as doubles.
\<close>

theorem display_range_witness:
  "map detailRange (fitDetails
      (\<lambda>k. if k = ''chest'' then JNum (Fin 90)
        else if k = ''waist'' then JNum (Fin 80) else JUndefined) ''rigid''
      [(''size'', JStr ''M''), (''chest'', JNum (Fin 91)), (''waist'', JNum (Fin 86))])
     = [(Fin 86, Fin 96), (Fin 81, Fin 91)] \<and>
   num_mul (Fin 91) (fl (95 / 100)) = Fin (6083377934159053 / 70368744177664) \<and>
   num_mul (Fin 91) (fl (105 / 100)) = Fin (6723733506175795 / 70368744177664) \<and>
   (\<exists>lo hi :: int.
      detailRange \<lparr>detailKey = ''chest'', detailUserValue = Fin 90, detailChartValue = Fin 91,
        detailStatus = ''perfect''\<rparr> = (Fin (of_int lo), Fin (of_int hi)) \<and>
      of_int lo \<le> (6083377934159053 / 70368744177664 :: real) \<and>
      (6723733506175795 / 70368744177664 :: real) \<le> of_int hi)"
proof -
  have e: "map detailRange (fitDetails
      (\<lambda>k. if k = ''chest'' then JNum (Fin 90)
        else if k = ''waist'' then JNum (Fin 80) else JUndefined) ''stretchy''
      [(''size'', JStr ''M''), (''chest'', JNum (Fin 91)), (''waist'', JNum (Fin 86))])
     = [(Fin 86, Fin 96), (Fin 81, Fin 91)]"
    by code_simp
  have a: "num_mul (Fin 91) (fl (95 / 100)) = Fin (6083377934159053 / 70368744177664)"
    by code_simp
  have b: "num_mul (Fin 91) (fl (105 / 100)) = Fin (6723733506175795 / 70368744177664)"
    by code_simp
  note th = display_range [of
        "\<lambda>k. if k = ''chest'' then JNum (Fin 90)
          else if k = ''waist'' then JNum (Fin 80) else JUndefined" "''rigid''"
        "[(''size'', JStr ''M''), (''chest'', JNum (Fin 91)), (''waist'', JNum (Fin 86))]"
        "''stretchy''"
        "\<lparr>detailKey = ''chest'', detailUserValue = Fin 90, detailChartValue = Fin 91,
          detailStatus = ''perfect''\<rparr>"
        91 "6083377934159053 / 70368744177664" "6723733506175795 / 70368744177664"]
  have 1: "map detailRange (fitDetails
      (\<lambda>k. if k = ''chest'' then JNum (Fin 90)
        else if k = ''waist'' then JNum (Fin 80) else JUndefined) ''rigid''
      [(''size'', JStr ''M''), (''chest'', JNum (Fin 91)), (''waist'', JNum (Fin 86))])
     = [(Fin 86, Fin 96), (Fin 81, Fin 91)]"
    using th [THEN conjunct1] e by simp
  have 3: "\<exists>lo hi :: int.
      detailRange \<lparr>detailKey = ''chest'', detailUserValue = Fin 90, detailChartValue = Fin 91,
        detailStatus = ''perfect''\<rparr> = (Fin (of_int lo), Fin (of_int hi)) \<and>
      of_int lo \<le> (6083377934159053 / 70368744177664 :: real) \<and>
      (6723733506175795 / 70368744177664 :: real) \<le> of_int hi"
    using th [THEN conjunct2, THEN conjunct2] a b by auto
  from 1 a b 3 show ?thesis
    by blast
qed

text \<open>
  Claim C8 as it is worded covers every chart value and speaks of integer
  centimetres. An infinite chart value passes the \<open>typeof\<close> test, and its range is
  infinite at both ends. And for the chart value \<open>13.68421052631579\<close> (written as the
  exact value of the double) the lower end shown is 13, because the double product
  rounds up to 13, where the exact product with \<open>0.95\<close> lies below 13 and has floor 12.
\<close>

theorem range_not_integer_counterexample:
  "map detailRange (fitDetails (\<lambda>k. if k = ''chest'' then JNum (Fin 90) else JUndefined)
      ''normal'' [(''chest'', JNum PosInf)]) = [(PosInf, PosInf)] \<and>
   rangeMin (Fin (7703525678396901 / 562949953421312)) = Fin 13 \<and>
   \<lfloor>7703525678396901 / 562949953421312 * (95 / 100) :: real\<rfloor> = 12"
proof -
  have 1: "map detailRange (fitDetails (\<lambda>k. if k = ''chest'' then JNum (Fin 90) else JUndefined)
      ''normal'' [(''chest'', JNum PosInf)]) = [(PosInf, PosInf)]"
    by code_simp
  have 2: "rangeMin (Fin (7703525678396901 / 562949953421312)) = Fin 13"
    by code_simp
  have 3: "\<lfloor>7703525678396901 / 562949953421312 * (95 / 100) :: real\<rfloor> = 12"
    by simp
  from 1 2 3 show ?thesis
    by blast
qed

end
